theory Spec2Isabelle
  imports Main "HOL-Library.Sublist"
begin

section \<open>Python values, exceptions and notebook output\<close>

text \<open>
  The notebooks are Python. A raised exception is the left summand of a sum type, a
  returned value the right one. Only the exception classes the notebooks' own code and
  its collaborators raise are distinguished; each carries its message.
\<close>

datatype py_exception =
    NotImplementedError string
  | ConnectionError string
  | JSONDecodeError string
  | ValueError string
  | RuntimeError string

text \<open>Python's \<^verbatim>\<open>str(e)\<close>: the message of the exception.\<close>

fun str_exc :: "py_exception \<Rightarrow> string" where
  "str_exc (NotImplementedError m) = m"
| "str_exc (ConnectionError m) = m"
| "str_exc (JSONDecodeError m) = m"
| "str_exc (ValueError m) = m"
| "str_exc (RuntimeError m) = m"

text \<open>
  What a cell shows in its output area: an object handed to IPython's \<^verbatim>\<open>display\<close>, or
  text written to standard output.
\<close>

datatype display_obj = Markdown string | HTML string | Stdout string

definition nl :: string where
  "nl = [CHR 0x0A]"

subsection \<open>\<^verbatim>\<open>str.replace\<close> and \<^verbatim>\<open>printmd\<close>\<close>





subsection \<open>The cells that stream an agent run\<close>








section \<open>The outside world and the kernel session\<close>

text \<open>
  One search hit as \<^verbatim>\<open>BingSearchAPIWrapper.results\<close> gives it (a dictionary with the keys
  \<^verbatim>\<open>snippet\<close>, \<^verbatim>\<open>title\<close> and \<^verbatim>\<open>link\<close>), and the part of an HTTP response the
  notebooks read.
\<close>

record search_result =
  title :: string
  snippet :: string
  link :: string

record response =
  status_code :: int
  content :: string

text \<open>
  What a tool's \<^verbatim>\<open>_run\<close> can return: a string, an exception object (a value, not a
  raise), or the list of search hits.
\<close>

datatype pyval =
    PyStr string
  | PyExc py_exception
  | PyResults "search_result list"

fun is_str :: "pyval \<Rightarrow> bool" where
  "is_str (PyStr s) = True"
| "is_str (PyExc e) = False"
| "is_str (PyResults rs) = False"

text \<open>The external effects a cell can perform, recorded in the order they happen.\<close>

datatype event =
    HttpGet string "(string \<times> string) list" "(string \<times> string) list"
  | BingQuery string int
  | LlmCall string string
  | Sleep nat

fun is_http :: "event \<Rightarrow> bool" where
  "is_http (HttpGet url params hdrs) = True"
| "is_http (BingQuery q n) = False"
| "is_http (LlmCall llm prompt) = False"
| "is_http (Sleep n) = False"

fun is_llm :: "event \<Rightarrow> bool" where
  "is_llm (HttpGet url params hdrs) = False"
| "is_llm (BingQuery q n) = False"
| "is_llm (LlmCall llm prompt) = True"
| "is_llm (Sleep n) = False"

text \<open>
  The collaborators the notebooks call and do not implement: \<^verbatim>\<open>requests.get(url, params,
  headers)\<close>, \<^verbatim>\<open>BingSearchAPIWrapper(k).results(query, num_results)\<close>, the Azure OpenAI
  deployment, \<^verbatim>\<open>Response.json()\<close>, \<^verbatim>\<open>json.dumps\<close> and the text extraction
  \<^verbatim>\<open>BeautifulSoup(content, 'html.parser').get_text()\<close>. Each network service is a
  state machine over the state \<open>'w\<close> of the world behind it and may raise; \<open>'j\<close> is
  the type of decoded JSON documents. The libraries are third-party code: what they
  compute is a parameter of the model.
\<close>

record ('w, 'j) services =
  requests_get :: "string \<Rightarrow> (string \<times> string) list \<Rightarrow> (string \<times> string) list \<Rightarrow> 'w
                    \<Rightarrow> (py_exception + response) \<times> 'w"
  bing_results :: "string \<Rightarrow> int \<Rightarrow> 'w \<Rightarrow> (py_exception + search_result list) \<times> 'w"
  llm_predict :: "string \<Rightarrow> string \<Rightarrow> 'w \<Rightarrow> (py_exception + string) \<times> 'w"
  response_json :: "response \<Rightarrow> py_exception + 'j"
  json_dumps :: "'j \<Rightarrow> string"
  soup_get_text :: "string \<Rightarrow> string"

subsection \<open>The tool classes\<close>

text \<open>
  \<^verbatim>\<open>BaseTool\<close> carries \<^verbatim>\<open>name\<close> and \<^verbatim>\<open>description\<close>; each tool class of the notebooks
  extends it with its own fields. \<^verbatim>\<open>Tool.from_function\<close> wraps a Python function: the
  wrapped function is held by reference.
\<close>

record BaseTool =
  name :: string
  description :: string

record MyBingSearch = BaseTool +
  k :: int

datatype func_ref = Ref_fetch_web_page

record Tool = BaseTool +
  func :: func_ref

record MyAPISearch = BaseTool +
  llm :: string
  api_spec :: string
  headers :: "(string \<times> string) list"
  limit_to_domains :: "string list option"
  verbose :: bool

record MySimpleAPISearch = BaseTool +
  api_key :: string

datatype tool =
    BingTool MyBingSearch
  | FunctionTool Tool
  | APITool MyAPISearch
  | SimpleAPITool MySimpleAPISearch

fun tool_name :: "tool \<Rightarrow> string" where
  "tool_name (BingTool t) = name t"
| "tool_name (FunctionTool t) = name t"
| "tool_name (APITool t) = name t"
| "tool_name (SimpleAPITool t) = name t"

fun tool_description :: "tool \<Rightarrow> string" where
  "tool_description (BingTool t) = description t"
| "tool_description (FunctionTool t) = description t"
| "tool_description (APITool t) = description t"
| "tool_description (SimpleAPITool t) = description t"

text \<open>
  \<^verbatim>\<open>AgentExecutor(agent=agent, tools=tools, verbose=False, return_intermediate_steps=True)\<close>:
  the executor object as the notebooks configure it. The agent itself and the loop that
  runs it belong to the framework.
\<close>

record AgentExecutor =
  tools :: "tool list"
  executor_verbose :: bool
  return_intermediate_steps :: bool

text \<open>
  The state of a notebook kernel: the world behind the network, the effects performed so
  far, and the global \<^verbatim>\<open>agent_executor\<close> (unbound until its cell has run).
\<close>

record 'w session =
  backend :: 'w
  trace :: "event list"
  agent_executor :: "AgentExecutor option"

definition emit :: "event \<Rightarrow> 'w session \<Rightarrow> 'w session" where
  "emit ev s = s\<lparr>trace := trace s @ [ev]\<rparr>"


section \<open>Notebook 09: Bing search and page fetch\<close>

text \<open>
  \<^verbatim>\<open>class MyBingSearch(BaseTool)\<close> with the class attributes \<^verbatim>\<open>name = "Searcher"\<close>,
  \<^verbatim>\<open>description = "useful to search the internet.\n"\<close> and the field \<^verbatim>\<open>k: int = 5\<close>.
  The constructor's keyword argument is optional. The class attribute \<^verbatim>\<open>args_schema\<close>
  is read by the framework only and is left out.
\<close>

definition new_MyBingSearch :: "int option \<Rightarrow> MyBingSearch" where
  "new_MyBingSearch kw_k =
     \<lparr>name = ''Searcher'',
      description = ''useful to search the internet.'' @ [CHR 0x0A],
      k = (case kw_k of None \<Rightarrow> 5 | Some v \<Rightarrow> v)\<rparr>"

text \<open>
  \<^verbatim>\<open>def _run(self, query, run_manager=None):
      bing = BingSearchAPIWrapper(k=self.k)
      return bing.results(query,num_results=self.k)\<close>
  No \<^verbatim>\<open>try\<close>: what the wrapper raises leaves \<^verbatim>\<open>_run\<close>.
\<close>

definition MyBingSearch_run ::
  "('w, 'j) services \<Rightarrow> MyBingSearch \<Rightarrow> string \<Rightarrow> 'w session \<Rightarrow> (py_exception + pyval) \<times> 'w session"
where
  "MyBingSearch_run env self query s =
     (let (r, w) = bing_results env query (k self) (backend s);
          s' = emit (BingQuery query (k self)) (s\<lparr>backend := w\<rparr>)
      in (case r of Inl e \<Rightarrow> Inl e | Inr results \<Rightarrow> Inr (PyResults results), s'))"

text \<open>
  \<^verbatim>\<open>def parse_html(content) -> str:
      soup = BeautifulSoup(content, 'html.parser')
      text_content_with_links = soup.get_text()
      return text_content_with_links\<close>
  BeautifulSoup is a library outside the repository: \<open>parse_html\<close> returns what the
  library's extraction returns.
\<close>

definition parse_html :: "('w, 'j) services \<Rightarrow> string \<Rightarrow> string" where
  "parse_html env page_content = soup_get_text env page_content"

text \<open>
  \<^verbatim>\<open>def fetch_web_page(url: str) -> str:
      HEADERS = {'User-Agent': 'Mozilla/5.0 (Macintosh; ...) Gecko/20100101 Firefox/90.0'}
      response = requests.get(url, headers=HEADERS)
      return parse_html(response.content)\<close>
\<close>

definition HEADERS :: "(string \<times> string) list" where
  "HEADERS = [(''User-Agent'',
     ''Mozilla/5.0 (Macintosh; Intel Mac OS X 10.15; rv:90.0) Gecko/20100101 Firefox/90.0'')]"

definition fetch_web_page ::
  "('w, 'j) services \<Rightarrow> string \<Rightarrow> 'w session \<Rightarrow> (py_exception + string) \<times> 'w session"
where
  "fetch_web_page env url s =
     (let (r, w) = requests_get env url [] HEADERS (backend s);
          s' = emit (HttpGet url [] HEADERS) (s\<lparr>backend := w\<rparr>)
      in (case r of Inl e \<Rightarrow> Inl e | Inr resp \<Rightarrow> Inr (parse_html env (content resp)), s'))"

text \<open>
  \<^verbatim>\<open>web_fetch_tool = Tool.from_function(func=fetch_web_page, name="WebFetcher",
      description="useful to fetch the content of a url")\<close>
\<close>

definition web_fetch_tool :: Tool where
  "web_fetch_tool =
     \<lparr>name = ''WebFetcher'', description = ''useful to fetch the content of a url'',
      func = Ref_fetch_web_page\<rparr>"

definition Tool_run ::
  "('w, 'j) services \<Rightarrow> Tool \<Rightarrow> string \<Rightarrow> 'w session \<Rightarrow> (py_exception + pyval) \<times> 'w session"
where
  "Tool_run env self tool_input s =
     (case func self of
        Ref_fetch_web_page \<Rightarrow>
          (let (r, s') = fetch_web_page env tool_input s
           in (case r of Inl e \<Rightarrow> Inl e | Inr txt \<Rightarrow> Inr (PyStr txt), s')))"

text \<open>
  \<^verbatim>\<open>tools = [MyBingSearch(k=5), web_fetch_tool]
  agent_executor = AgentExecutor(agent=agent, tools=tools, verbose=False,
                                 return_intermediate_steps=True)\<close>
\<close>

definition bing_tools :: "tool list" where
  "bing_tools = [BingTool (new_MyBingSearch (Some 5)), FunctionTool web_fetch_tool]"

definition bing_agent_cell :: "'w session \<Rightarrow> 'w session" where
  "bing_agent_cell s =
     s\<lparr>agent_executor :=
         Some \<lparr>tools = bing_tools, executor_verbose = False, return_intermediate_steps = True\<rparr>\<rparr>"


section \<open>Notebook on API calls: the OpenAPI chain tool and the keyless tool\<close>

subsection \<open>The API chain of the framework\<close>

text \<open>
  Modelled from the spec: the chain object of the framework, missing from the sources.
  \<^verbatim>\<open>APIChain.from_llm_and_api_docs\<close> keeps the arguments the notebook passes: the model,
  the API description document, the auth headers, and the two options.
\<close>

record APIChain =
  chain_llm :: string
  api_docs :: string
  chain_headers :: "(string \<times> string) list"
  chain_verbose :: bool
  chain_limit_to_domains :: "string list option"

definition from_llm_and_api_docs ::
  "string \<Rightarrow> string \<Rightarrow> (string \<times> string) list \<Rightarrow> bool \<Rightarrow> string list option \<Rightarrow> APIChain"
where
  "from_llm_and_api_docs l docs hdrs vb doms =
     \<lparr>chain_llm = l, api_docs = docs, chain_headers = hdrs, chain_verbose = vb,
      chain_limit_to_domains = doms\<rparr>"

text \<open>
  The two prompt templates of the chain, as the notebook prints them
  (\<^verbatim>\<open>chain.api_request_chain.prompt.template\<close> and
  \<^verbatim>\<open>chain.api_answer_chain.prompt.template\<close>), with their placeholders filled in.
\<close>

definition api_url_prompt :: "string \<Rightarrow> string \<Rightarrow> string" where
  "api_url_prompt docs question =
     ''You are given the below API Documentation:'' @ nl @ docs @ nl @
     ''Using this documentation, generate the full API url to call for answering the user question.'' @ nl @
     ''You should build the API url in order to get a response that is as short as possible, while still getting the necessary information to answer the question. Pay attention to deliberately exclude any unnecessary pieces of data in the API call.'' @ nl @ nl @
     ''Question:'' @ question @ nl @ ''API url:''"

definition api_response_prompt :: "string \<Rightarrow> string \<Rightarrow> string \<Rightarrow> string \<Rightarrow> string" where
  "api_response_prompt docs question api_url api_response =
     api_url_prompt docs question @ '' '' @ api_url @ nl @ nl @
     ''Here is the response from the API:'' @ nl @ nl @ api_response @ nl @ nl @
     ''Summarize this response to answer the original question.'' @ nl @ nl @ ''Summary:''"

text \<open>
  Modelled from the spec: \<^verbatim>\<open>APIChain.invoke\<close> belongs to the framework and is missing
  from the sources. The spec says the chain "first asks the Oracle to synthesize a
  concrete request (method + URL) from the document and the query, issues that request,
  then asks the Oracle to summarize the raw response into an answer", with no retry. A
  failure of any of the three steps leaves the chain as an exception.
\<close>

definition APIChain_invoke ::
  "('w, 'j) services \<Rightarrow> APIChain \<Rightarrow> string \<Rightarrow> 'w session \<Rightarrow> (py_exception + pyval) \<times> 'w session"
where
  "APIChain_invoke env chain question s =
     (let p1 = api_url_prompt (api_docs chain) question;
          (r1, w1) = llm_predict env (chain_llm chain) p1 (backend s);
          s1 = emit (LlmCall (chain_llm chain) p1) (s\<lparr>backend := w1\<rparr>)
      in case r1 of
           Inl e \<Rightarrow> (Inl e, s1)
         | Inr api_url \<Rightarrow>
             (let (r2, w2) = requests_get env api_url [] (chain_headers chain) (backend s1);
                  s2 = emit (HttpGet api_url [] (chain_headers chain)) (s1\<lparr>backend := w2\<rparr>)
              in case r2 of
                   Inl e \<Rightarrow> (Inl e, s2)
                 | Inr resp \<Rightarrow>
                     (let p2 = api_response_prompt (api_docs chain) question api_url (content resp);
                          (r3, w3) = llm_predict env (chain_llm chain) p2 (backend s2);
                          s3 = emit (LlmCall (chain_llm chain) p2) (s2\<lparr>backend := w3\<rparr>)
                      in case r3 of
                           Inl e \<Rightarrow> (Inl e, s3)
                         | Inr answer \<Rightarrow> (Inr (PyStr answer), s3))))"

subsection \<open>\<^verbatim>\<open>MyAPISearch\<close>\<close>

text \<open>
  \<^verbatim>\<open>class MyAPISearch(BaseTool)\<close>: \<^verbatim>\<open>name = "apisearch"\<close>, the fields \<^verbatim>\<open>llm\<close> and
  \<^verbatim>\<open>api_spec\<close>, and the defaults \<^verbatim>\<open>headers: dict = {}\<close>, \<^verbatim>\<open>limit_to_domains: list = None\<close>,
  \<^verbatim>\<open>verbose: bool = False\<close>. The notebook constructs it as
  \<^verbatim>\<open>MyAPISearch(llm=llm, api_spec=str(reduced_api_spec), limit_to_domains=None)\<close>.
\<close>

definition new_MyAPISearch :: "string \<Rightarrow> string \<Rightarrow> string list option \<Rightarrow> MyAPISearch" where
  "new_MyAPISearch kw_llm kw_api_spec kw_limit_to_domains =
     \<lparr>name = ''apisearch'',
      description = ''useful when the questions includes the term: apisearch.'' @ [CHR 0x0A],
      llm = kw_llm, api_spec = kw_api_spec, headers = [],
      limit_to_domains = kw_limit_to_domains, verbose = False\<rparr>"

text \<open>
  \<^verbatim>\<open>def _run(self, query: str) -> str:
      chain = APIChain.from_llm_and_api_docs(llm=self.llm, api_docs=self.api_spec,
                  headers=self.headers, verbose=self.verbose,
                  limit_to_domains=self.limit_to_domains)
      try:
          sleep(2) # This is optional to avoid possible TPM rate limits
          response = chain.invoke(query)
      except Exception as e:
          response = e
      return response\<close>
\<close>

definition MyAPISearch_run ::
  "('w, 'j) services \<Rightarrow> MyAPISearch \<Rightarrow> string \<Rightarrow> 'w session \<Rightarrow> (py_exception + pyval) \<times> 'w session"
where
  "MyAPISearch_run env self query s =
     (let chain = from_llm_and_api_docs (llm self) (api_spec self) (headers self) (verbose self)
                    (limit_to_domains self);
          s1 = emit (Sleep 2) s;
          (r, s2) = APIChain_invoke env chain query s1;
          response = (case r of Inl e \<Rightarrow> PyExc e | Inr v \<Rightarrow> v)
      in (Inr response, s2))"

text \<open>
  \<^verbatim>\<open>async def _arun(self, query: str) -> str:
      raise NotImplementedError("This Tool does not support async")\<close>
\<close>

definition MyAPISearch_arun ::
  "MyAPISearch \<Rightarrow> string \<Rightarrow> 'w session \<Rightarrow> (py_exception + pyval) \<times> 'w session"
where
  "MyAPISearch_arun self query s = (Inl (NotImplementedError ''This Tool does not support async''), s)"

subsection \<open>\<^verbatim>\<open>MySimpleAPISearch\<close>\<close>

definition new_MySimpleAPISearch :: "string \<Rightarrow> MySimpleAPISearch" where
  "new_MySimpleAPISearch kw_api_key =
     \<lparr>name = ''apisearch'',
      description = ''useful when the questions includes the term: apisearch.'' @ [CHR 0x0A],
      api_key = kw_api_key\<rparr>"

text \<open>
  \<^verbatim>\<open>def _run(self, query: str) -> str:
      params = {'api_key': self.api_key, 'type': 'search',
                'ebay_domain': 'ebay.com', 'search_term': query}
      # make the http GET request to Countdown API
      api_result = requests.get('https://api.countdownapi.com/request', params)
      try:
          response = json.dumps(api_result.json())
      except Exception as e:
          response = e
      return response\<close>
  The request stands before the \<^verbatim>\<open>try\<close>: what it raises leaves \<^verbatim>\<open>_run\<close>.
\<close>

definition countdown_url :: string where
  "countdown_url = ''https://api.countdownapi.com/request''"

definition countdown_params :: "MySimpleAPISearch \<Rightarrow> string \<Rightarrow> (string \<times> string) list" where
  "countdown_params self query =
     [(''api_key'', api_key self), (''type'', ''search''),
      (''ebay_domain'', ''ebay.com''), (''search_term'', query)]"

definition MySimpleAPISearch_run ::
  "('w, 'j) services \<Rightarrow> MySimpleAPISearch \<Rightarrow> string \<Rightarrow> 'w session \<Rightarrow> (py_exception + pyval) \<times> 'w session"
where
  "MySimpleAPISearch_run env self query s =
     (let params = countdown_params self query;
          (r, w) = requests_get env countdown_url params [] (backend s);
          s' = emit (HttpGet countdown_url params []) (s\<lparr>backend := w\<rparr>)
      in case r of
           Inl e \<Rightarrow> (Inl e, s')
         | Inr api_result \<Rightarrow>
             (let response = (case response_json env api_result of
                                Inl e \<Rightarrow> PyExc e
                              | Inr doc \<Rightarrow> PyStr (json_dumps env doc))
              in (Inr response, s')))"

definition MySimpleAPISearch_arun ::
  "MySimpleAPISearch \<Rightarrow> string \<Rightarrow> 'w session \<Rightarrow> (py_exception + pyval) \<times> 'w session"
where
  "MySimpleAPISearch_arun self query s =
     (Inl (NotImplementedError ''This Tool does not support async''), s)"

text \<open>
  \<^verbatim>\<open>tools = [MyAPISearch(llm=llm, api_spec=str(reduced_api_spec), limit_to_domains=None)]
  agent_executor = AgentExecutor(agent=agent, tools=tools, return_intermediate_steps=True)\<close>
  and, later in the same notebook,
  \<^verbatim>\<open>tools = [MySimpleAPISearch(api_key='demo')]
  agent_executor = AgentExecutor(agent=agent, tools=tools, verbose=False,
                                 return_intermediate_steps=True )\<close>
\<close>

definition apisearch_tools :: "string \<Rightarrow> string \<Rightarrow> tool list" where
  "apisearch_tools the_llm reduced_api_spec = [APITool (new_MyAPISearch the_llm reduced_api_spec None)]"

definition apisearch_agent_cell :: "string \<Rightarrow> string \<Rightarrow> 'w session \<Rightarrow> 'w session" where
  "apisearch_agent_cell the_llm reduced_api_spec s =
     s\<lparr>agent_executor :=
         Some \<lparr>tools = apisearch_tools the_llm reduced_api_spec, executor_verbose = False,
               return_intermediate_steps = True\<rparr>\<rparr>"

definition simple_apisearch_tools :: "tool list" where
  "simple_apisearch_tools = [SimpleAPITool (new_MySimpleAPISearch ''demo'')]"

definition simple_apisearch_agent_cell :: "'w session \<Rightarrow> 'w session" where
  "simple_apisearch_agent_cell s =
     s\<lparr>agent_executor :=
         Some \<lparr>tools = simple_apisearch_tools, executor_verbose = False,
               return_intermediate_steps = True\<rparr>\<rparr>"

text \<open>\<^verbatim>\<open>BaseTool.run\<close> dispatches to the \<^verbatim>\<open>_run\<close> of the tool's class.\<close>

fun tool_run ::
  "('w, 'j) services \<Rightarrow> tool \<Rightarrow> string \<Rightarrow> 'w session \<Rightarrow> (py_exception + pyval) \<times> 'w session"
where
  "tool_run env (BingTool t) tool_input s = MyBingSearch_run env t tool_input s"
| "tool_run env (FunctionTool t) tool_input s = Tool_run env t tool_input s"
| "tool_run env (APITool t) tool_input s = MyAPISearch_run env t tool_input s"
| "tool_run env (SimpleAPITool t) tool_input s = MySimpleAPISearch_run env t tool_input s"


section \<open>The reasoning loop of the framework\<close>

text \<open>
  Modelled from the spec: the data model of the loop (sections 3 and 6 of the spec),
  which the sources leave to the framework: the oracle's response, how a run ends, the
  invocation of a tool and its observation (a text or an error text).
\<close>

datatype oracle_response = ToolCalls "(string \<times> string) list" | FinalAnswer string

datatype terminated_by = Answer | MaxStepsExceeded | Error

datatype obs_result = ObsText string | ObsError string

record ToolInvocation =
  inv_tool_name :: string
  input_payload :: string

record Observation =
  invocation :: ToolInvocation
  result :: obs_result

text \<open>
  Modelled from the spec: the transcript, "ordered sequence of (ToolInvocation,
  Observation) pairs plus the original question". It keeps the pairs grouped by the turn
  that requested them, in request order; the flat sequence of pairs is the concatenation of
  the turns. Time stamps and durations are wall-clock readings and are left out.
\<close>

type_synonym turn = "(ToolInvocation \<times> Observation) list"

record Transcript =
  question :: string
  turns :: "turn list"

record LoopResult =
  final_answer :: string
  transcript :: Transcript
  terminated_by :: terminated_by

type_synonym 'w oracle_fn =
  "Transcript \<Rightarrow> (string \<times> string) list \<Rightarrow> 'w \<Rightarrow> (py_exception + oracle_response) \<times> 'w"

text \<open>
  Modelled from the spec: the tool specs shown to the oracle (name and description of
  each registered tool) and the rendering of a tool's return value to the text of an
  observation; search hits are rendered as their title, snippet and link.
\<close>

definition tool_specs :: "tool list \<Rightarrow> (string \<times> string) list" where
  "tool_specs registry = map (\<lambda>t. (tool_name t, tool_description t)) registry"

definition render_hit :: "search_result \<Rightarrow> string" where
  "render_hit h = title h @ nl @ snippet h @ nl @ link h @ nl"

fun str_pyval :: "pyval \<Rightarrow> string" where
  "str_pyval (PyStr s) = s"
| "str_pyval (PyExc e) = str_exc e"
| "str_pyval (PyResults hits) = concat (map render_hit hits)"

text \<open>
  Modelled from the spec: the loop of the framework's agent executor is missing from the
  sources, which only configure it. One invocation: the tool is looked up by name; what
  it returns is rendered to text; a tool that raises, and a request for a tool that is
  not registered, become an observation carrying the error text.
\<close>

definition invoke ::
  "('w, 'j) services \<Rightarrow> tool list \<Rightarrow> string \<Rightarrow> string \<Rightarrow> 'w session
     \<Rightarrow> (ToolInvocation \<times> Observation) \<times> 'w session"
where
  "invoke env registry n payload s =
     (let inv = \<lparr>inv_tool_name = n, input_payload = payload\<rparr>
      in case find (\<lambda>t. tool_name t = n) registry of
           None \<Rightarrow> ((inv, \<lparr>invocation = inv, result = ObsError (''unknown tool: '' @ n)\<rparr>), s)
         | Some t \<Rightarrow>
             (let (r, s') = tool_run env t payload s;
                  res = (case r of Inl e \<Rightarrow> ObsError (str_exc e) | Inr v \<Rightarrow> ObsText (str_pyval v))
              in ((inv, \<lparr>invocation = inv, result = res\<rparr>), s')))"

text \<open>
  Modelled from the spec: the tool calls of one turn are dispatched and their
  observations recorded "in a single deterministic order ... matching the order the
  Oracle requested them".
\<close>

fun dispatch ::
  "('w, 'j) services \<Rightarrow> tool list \<Rightarrow> (string \<times> string) list \<Rightarrow> 'w session \<Rightarrow> turn \<times> 'w session"
where
  "dispatch env registry [] s = ([], s)"
| "dispatch env registry ((n, payload) # calls) s =
     (let (p, s1) = invoke env registry n payload s;
          (ps, s2) = dispatch env registry calls s1
      in (p # ps, s2))"

text \<open>
  Modelled from the spec: the state machine of section 4.2. In \<open>Thinking\<close> the oracle
  sees the transcript and the tool specs and returns tool calls or a final answer; tool
  calls are dispatched, their observations appended as one turn, and the loop thinks
  again; a final answer ends the run with \<open>Answer\<close>; a failure of the oracle ends it with
  \<open>Error\<close>; "a configured maximum iteration count bounds the cycle; exceeding it forces
  Failed with terminated_by = MaxStepsExceeded". The first argument counts the
  iterations that are left.
\<close>

fun reasoning_loop ::
  "nat \<Rightarrow> ('w, 'j) services \<Rightarrow> 'w oracle_fn \<Rightarrow> tool list \<Rightarrow> Transcript \<Rightarrow> 'w session
     \<Rightarrow> LoopResult \<times> 'w session"
where
  "reasoning_loop 0 env ask registry tr s =
     (\<lparr>final_answer = [], transcript = tr, terminated_by = MaxStepsExceeded\<rparr>, s)"
| "reasoning_loop (Suc n) env ask registry tr s =
     (let (r, w) = ask tr (tool_specs registry) (backend s);
          s1 = s\<lparr>backend := w\<rparr>
      in case r of
           Inl e \<Rightarrow> (\<lparr>final_answer = [], transcript = tr, terminated_by = Error\<rparr>, s1)
         | Inr (FinalAnswer a) \<Rightarrow> (\<lparr>final_answer = a, transcript = tr, terminated_by = Answer\<rparr>, s1)
         | Inr (ToolCalls calls) \<Rightarrow>
             (let (obs, s2) = dispatch env registry calls s1
              in reasoning_loop n env ask registry (tr\<lparr>turns := turns tr @ [obs]\<rparr>) s2))"

definition run_loop ::
  "nat \<Rightarrow> ('w, 'j) services \<Rightarrow> 'w oracle_fn \<Rightarrow> tool list \<Rightarrow> string \<Rightarrow> 'w session
     \<Rightarrow> LoopResult \<times> 'w session"
where
  "run_loop max_iterations env ask registry q s =
     reasoning_loop max_iterations env ask registry \<lparr>question = q, turns = []\<rparr> s"


section \<open>Worlds for concrete runs\<close>

text \<open>
  A world whose services give the same fixed answers whatever they are asked and keep no
  state; decoded JSON is kept as its canonical text, and only \<^verbatim>\<open>{}\<close> decodes; the text
  extraction is left as the identity.
\<close>

definition fixed_services ::
  "(py_exception + response) \<Rightarrow> (py_exception + search_result list) \<Rightarrow> (py_exception + string)
     \<Rightarrow> (unit, string) services"
where
  "fixed_services http hits completion =
     \<lparr>requests_get = (\<lambda>url params hdrs w. (http, w)),
      bing_results = (\<lambda>q n w. (hits, w)),
      llm_predict = (\<lambda>l prompt w. (completion, w)),
      response_json = (\<lambda>r. if content r = ''{}'' then Inr ''{}''
                            else Inl (JSONDecodeError ''Expecting value'')),
      json_dumps = (\<lambda>doc. doc),
      soup_get_text = (\<lambda>markup. markup)\<rparr>"

definition fresh_session :: "unit session" where
  "fresh_session = \<lparr>backend = (), trace = [], agent_executor = None\<rparr>"

definition hit_A :: search_result where
  "hit_A = \<lparr>title = ''A'', snippet = ''X costs 10'', link = ''u1''\<rparr>"

definition page_response :: response where
  "page_response =
     \<lparr>status_code = 200, content = ''<html><body>Hello<script>evil()</script></body></html>''\<rparr>"


text \<open>The backing resource is static when no request changes the world behind it.\<close>

definition static_backend :: "('w, 'j) services \<Rightarrow> bool" where
  "static_backend env =
     ((\<forall>url params hdrs w. snd (requests_get env url params hdrs w) = w) \<and>
      (\<forall>q n w. snd (bing_results env q n w) = w))"


text \<open>An oracle that asks for two searches in every turn.\<close>

definition search_twice :: "unit oracle_fn" where
  "search_twice tr specs w =
     (Inr (ToolCalls [(''Searcher'', ''price of X''), (''Searcher'', ''price of Y'')]), w)"

text \<open>
  A world that is not static: the page it serves grows by one character with every
  request.
\<close>

definition growing_page :: "(nat, string) services" where
  "growing_page =
     \<lparr>requests_get = (\<lambda>url params hdrs w.
        (Inr \<lparr>status_code = 200, content = replicate w (CHR ''x'')\<rparr>, Suc w)),
      bing_results = (\<lambda>q n w. (Inr [], w)),
      llm_predict = (\<lambda>l prompt w. (Inr [], w)),
      response_json = (\<lambda>r. Inr (content r)),
      json_dumps = (\<lambda>doc. doc),
      soup_get_text = (\<lambda>markup. markup)\<rparr>"

text \<open>
  A world that counts the requests it has served: the model answers the first prompt
  with a URL and every later one with a summary; the API answers with a ticker line.
\<close>

definition ticker_world :: "(nat, string) services" where
  "ticker_world =
     \<lparr>requests_get = (\<lambda>url params hdrs w.
        (Inr \<lparr>status_code = 200, content = ''XBTUSD 10''\<rparr>, Suc w)),
      bing_results = (\<lambda>q n w. (Inr [], w)),
      llm_predict = (\<lambda>l prompt w.
        (Inr (if w = 0 then ''https://api.kraken.com/0/public/Ticker?pair=XBTUSD''
              else ''Bitcoin costs 10 USD''), Suc w)),
      response_json = (\<lambda>r. Inr (content r)),
      json_dumps = (\<lambda>doc. doc),
      soup_get_text = (\<lambda>markup. markup)\<rparr>"

section \<open>Properties of the display helper and the asynchronous entry points\<close>





text \<open>
  Claim C9. For every tool object, query and session, the asynchronous entry points
  \<^verbatim>\<open>MyAPISearch._arun\<close> and \<^verbatim>\<open>MySimpleAPISearch._arun\<close> raise \<^verbatim>\<open>NotImplementedError\<close>
  and do nothing else: the session is left as it was.
\<close>

theorem arun_raises_not_implemented:
  "MyAPISearch_arun api_tool q s =
     (Inl (NotImplementedError ''This Tool does not support async''), s)
   \<and> MySimpleAPISearch_arun simple_tool q s =
     (Inl (NotImplementedError ''This Tool does not support async''), s)"
  by (simp add: MyAPISearch_arun_def MySimpleAPISearch_arun_def)


section \<open>Properties of the tools\<close>

lemma emit_simps [simp]:
  "trace (emit ev s) = trace s @ [ev]"
  "backend (emit ev s) = backend s"
  "agent_executor (emit ev s) = agent_executor s"
  by (simp_all add: emit_def)

text \<open>
  Claim C5, as stated, fails: when the body of the response is not JSON, the run does not
  return the response. For the body \<^verbatim>\<open>Bad Gateway\<close> it returns the exception object of
  the failed decoding.
\<close>

theorem keyless_bad_body_not_raw:
  "fst (MySimpleAPISearch_run
          (fixed_services (Inr \<lparr>status_code = 502, content = ''Bad Gateway''\<rparr>) (Inr []) (Inr []))
          (new_MySimpleAPISearch ''demo'') ''memory cards'' fresh_session)
     = Inr (PyExc (JSONDecodeError ''Expecting value''))
   \<and> PyExc (JSONDecodeError ''Expecting value'') \<noteq> PyStr ''Bad Gateway''"
  by (simp add: MySimpleAPISearch_run_def fixed_services_def Let_def)

text \<open>
  Claim C5, amended. For every search term, one run of \<open>MySimpleAPISearch\<close> adds exactly
  one event to the trace: an HTTP GET to the fixed Countdown endpoint whose parameters
  are the caller's \<open>api_key\<close>, the constants \<^verbatim>\<open>type=search\<close> and \<^verbatim>\<open>ebay_domain=ebay.com\<close>,
  and the search term; two runs differ in the last parameter only. No call to the
  language model is made. When the request succeeds and the body of the response
  decodes as JSON, the run returns that document serialised again, unsummarized.
\<close>

theorem keyless_one_get:
  "trace (snd (MySimpleAPISearch_run env self query s)) =
     trace s @ [HttpGet ''https://api.countdownapi.com/request''
                  [(''api_key'', api_key self), (''type'', ''search''),
                   (''ebay_domain'', ''ebay.com''), (''search_term'', query)] []]
   \<and> butlast (countdown_params self query) = butlast (countdown_params self query')
   \<and> last (countdown_params self query) = (''search_term'', query)
   \<and> filter is_llm (trace (snd (MySimpleAPISearch_run env self query s))) = filter is_llm (trace s)
   \<and> (fst (requests_get env countdown_url (countdown_params self query) [] (backend s))
          = Inr api_result
        \<and> response_json env api_result = Inr doc
        \<longrightarrow> fst (MySimpleAPISearch_run env self query s) = Inr (PyStr (json_dumps env doc)))"
  by (simp add: MySimpleAPISearch_run_def countdown_url_def countdown_params_def Let_def
      split: prod.splits sum.splits)

theorem keyless_one_get_witness:
  "fst (requests_get
          (fixed_services (Inr \<lparr>status_code = 200, content = ''{}''\<rparr>) (Inr []) (Inr []))
          countdown_url
          (countdown_params (new_MySimpleAPISearch ''demo'') ''memory cards'') []
          (backend fresh_session))
     = Inr \<lparr>status_code = 200, content = ''{}''\<rparr>
   \<and> response_json
          (fixed_services (Inr \<lparr>status_code = 200, content = ''{}''\<rparr>) (Inr []) (Inr []))
          \<lparr>status_code = 200, content = ''{}''\<rparr> = Inr ''{}''
   \<and> fst (MySimpleAPISearch_run
          (fixed_services (Inr \<lparr>status_code = 200, content = ''{}''\<rparr>) (Inr []) (Inr []))
          (new_MySimpleAPISearch ''demo'') ''memory cards'' fresh_session)
     = Inr (PyStr ''{}'')"
proof -
  let ?E = "fixed_services (Inr \<lparr>status_code = 200, content = ''{}''\<rparr>) (Inr []) (Inr [])"
  have g: "fst (requests_get ?E countdown_url
              (countdown_params (new_MySimpleAPISearch ''demo'') ''memory cards'') []
              (backend fresh_session)) = Inr \<lparr>status_code = 200, content = ''{}''\<rparr>"
    by (simp add: fixed_services_def)
  have j: "response_json ?E \<lparr>status_code = 200, content = ''{}''\<rparr> = Inr ''{}''"
    by (simp add: fixed_services_def)
  have d: "json_dumps ?E ''{}'' = ''{}''"
    by (simp add: fixed_services_def)
  from keyless_one_get [of ?E "new_MySimpleAPISearch ''demo''" "''memory cards''" fresh_session
      "''memory cards''" "\<lparr>status_code = 200, content = ''{}''\<rparr>" "''{}''"] g j d
  show ?thesis by simp
qed

text \<open>
  Claim C3, as stated, fails: with the default \<open>k\<close> and a provider that answers with one
  hit, what \<open>MyBingSearch\<close> returns is the list of hits, not a text.
\<close>

theorem bing_result_not_text:
  "fst (MyBingSearch_run (fixed_services (Inr page_response) (Inr [hit_A]) (Inr []))
          (new_MyBingSearch None) ''price of X'' fresh_session) = Inr (PyResults [hit_A])
   \<and> \<not> is_str (PyResults [hit_A])"
  by (simp add: MyBingSearch_run_def fixed_services_def)

text \<open>
  Claim C3, amended. \<open>k\<close> is a field of the tool with default 5. For every query, one
  run of \<open>MyBingSearch\<close> sends exactly one request to the search provider, asking for
  \<open>k\<close> results, and returns the provider's hits (title, snippet, link) as the list the
  provider gave, not rendered to text; what the provider raises leaves the run.
\<close>

theorem bing_returns_hits:
  "k (new_MyBingSearch None) = 5
   \<and> k (new_MyBingSearch (Some n)) = n
   \<and> trace (snd (MyBingSearch_run env self query s)) = trace s @ [BingQuery query (k self)]
   \<and> fst (MyBingSearch_run env self query s) =
       (case fst (bing_results env query (k self) (backend s)) of
          Inl e \<Rightarrow> Inl e
        | Inr hits \<Rightarrow> Inr (PyResults hits))"
  by (simp add: MyBingSearch_run_def new_MyBingSearch_def Let_def split: prod.splits sum.splits)

text \<open>
  Claim C2 asks that a failing tool run hands back the error text, a string. The code
  does not: when the JSON body cannot be decoded, \<open>MySimpleAPISearch\<close> returns the
  exception object; when the chain fails, so does \<open>MyAPISearch\<close>; and a failure of the
  request itself, which stands before the \<^verbatim>\<open>try\<close>, is not caught at all.
\<close>

theorem run_returns_exception_object:
  "fst (MySimpleAPISearch_run
          (fixed_services (Inr \<lparr>status_code = 502, content = ''Bad Gateway''\<rparr>) (Inr []) (Inr []))
          (new_MySimpleAPISearch ''demo'') ''memory cards'' fresh_session)
     = Inr (PyExc (JSONDecodeError ''Expecting value''))
   \<and> fst (MyAPISearch_run
          (fixed_services (Inr page_response) (Inr []) (Inl (RuntimeError ''rate limit'')))
          (new_MyAPISearch ''gpt-4'' ''docs'' None) ''price of bitcoin'' fresh_session)
     = Inr (PyExc (RuntimeError ''rate limit''))
   \<and> fst (MySimpleAPISearch_run
          (fixed_services (Inl (ConnectionError ''unreachable'')) (Inr []) (Inr []))
          (new_MySimpleAPISearch ''demo'') ''memory cards'' fresh_session)
     = Inl (ConnectionError ''unreachable'')"
  by (simp add: MySimpleAPISearch_run_def MyAPISearch_run_def APIChain_invoke_def
      fixed_services_def Let_def from_llm_and_api_docs_def new_MyAPISearch_def)

subsection \<open>Repeated calls against a static backend\<close>

lemma static_get: "static_backend env \<Longrightarrow> requests_get env u p h w = (r, w') \<Longrightarrow> w' = w"
  unfolding static_backend_def by (metis snd_conv)

lemma static_bing: "static_backend env \<Longrightarrow> bing_results env q n w = (r, w') \<Longrightarrow> w' = w"
  unfolding static_backend_def by (metis snd_conv)

lemma bing_backend:
  "static_backend env \<Longrightarrow> backend (snd (MyBingSearch_run env t q s)) = backend s"
  by (auto simp: MyBingSearch_run_def Let_def split: prod.splits dest: static_bing)

lemma bing_reads_backend:
  "backend s' = backend s \<Longrightarrow> fst (MyBingSearch_run env t q s') = fst (MyBingSearch_run env t q s)"
  by (simp add: MyBingSearch_run_def Let_def split: prod.splits)

lemma fetch_backend:
  "static_backend env \<Longrightarrow> backend (snd (fetch_web_page env url s)) = backend s"
  by (auto simp: fetch_web_page_def Let_def split: prod.splits dest: static_get)

lemma fetch_reads_backend:
  "backend s' = backend s \<Longrightarrow> fst (fetch_web_page env url s') = fst (fetch_web_page env url s)"
  by (simp add: fetch_web_page_def Let_def split: prod.splits)

lemma simple_backend:
  "static_backend env \<Longrightarrow> backend (snd (MySimpleAPISearch_run env t q s)) = backend s"
  by (auto simp: MySimpleAPISearch_run_def Let_def split: prod.splits sum.splits dest: static_get)

lemma simple_reads_backend:
  "backend s' = backend s \<Longrightarrow>
   fst (MySimpleAPISearch_run env t q s') = fst (MySimpleAPISearch_run env t q s)"
  by (simp add: MySimpleAPISearch_run_def Let_def split: prod.splits sum.splits)

text \<open>
  Claim C8. When no request changes the world behind the services, calling the web
  search, the page fetch or the keyless API tool a second time with the same input
  yields the same observation as the first call.
\<close>

theorem same_input_same_observation:
  "static_backend env \<Longrightarrow>
     fst (MyBingSearch_run env bing q (snd (MyBingSearch_run env bing q s)))
       = fst (MyBingSearch_run env bing q s)
   \<and> fst (fetch_web_page env url (snd (fetch_web_page env url s)))
       = fst (fetch_web_page env url s)
   \<and> fst (MySimpleAPISearch_run env simple q (snd (MySimpleAPISearch_run env simple q s)))
       = fst (MySimpleAPISearch_run env simple q s)"
proof -
  assume st: "static_backend env"
  show ?thesis
    using bing_reads_backend [OF bing_backend [OF st]]
      fetch_reads_backend [OF fetch_backend [OF st]]
      simple_reads_backend [OF simple_backend [OF st]]
    by blast
qed

theorem same_input_same_observation_witness:
  "static_backend (fixed_services (Inr page_response) (Inr [hit_A]) (Inr []))
   \<and> fst (MyBingSearch_run (fixed_services (Inr page_response) (Inr [hit_A]) (Inr []))
           (new_MyBingSearch None) ''price of X''
           (snd (MyBingSearch_run (fixed_services (Inr page_response) (Inr [hit_A]) (Inr []))
                   (new_MyBingSearch None) ''price of X'' fresh_session)))
       = Inr (PyResults [hit_A])
   \<and> fst (fetch_web_page (fixed_services (Inr page_response) (Inr [hit_A]) (Inr []))
           ''http://example.org''
           (snd (fetch_web_page (fixed_services (Inr page_response) (Inr [hit_A]) (Inr []))
                   ''http://example.org'' fresh_session)))
       = fst (fetch_web_page (fixed_services (Inr page_response) (Inr [hit_A]) (Inr []))
           ''http://example.org'' fresh_session)"
proof -
  let ?E = "fixed_services (Inr page_response) (Inr [hit_A]) (Inr [])"
  have st: "static_backend ?E"
    by (simp add: static_backend_def fixed_services_def)
  have first: "fst (MyBingSearch_run ?E (new_MyBingSearch None) ''price of X'' fresh_session)
      = Inr (PyResults [hit_A])"
    by (simp add: MyBingSearch_run_def fixed_services_def)
  from same_input_same_observation [OF st, of "new_MyBingSearch None" "''price of X''"
      fresh_session "''http://example.org''"] st first
  show ?thesis by simp
qed

subsection \<open>The registries handed to the agent executors\<close>

lemma bing_executor: "agent_executor (snd (MyBingSearch_run env t q s)) = agent_executor s"
  by (simp add: MyBingSearch_run_def Let_def split: prod.splits)

lemma fetch_executor: "agent_executor (snd (fetch_web_page env url s)) = agent_executor s"
  by (simp add: fetch_web_page_def Let_def split: prod.splits)

lemma Tool_executor: "agent_executor (snd (Tool_run env t q s)) = agent_executor s"
  using fetch_executor [of env q s]
  by (auto simp: Tool_run_def Let_def split: prod.splits func_ref.splits)

lemma chain_executor: "agent_executor (snd (APIChain_invoke env c q s)) = agent_executor s"
  by (simp add: APIChain_invoke_def Let_def split: prod.splits sum.splits)

lemma api_executor: "agent_executor (snd (MyAPISearch_run env t q s)) = agent_executor s"
proof -
  let ?c = "from_llm_and_api_docs (llm t) (api_spec t) (headers t) (verbose t) (limit_to_domains t)"
  have "agent_executor (snd (APIChain_invoke env ?c q (emit (Sleep 2) s))) = agent_executor s"
    by (simp add: chain_executor)
  then show ?thesis
    by (auto simp: MyAPISearch_run_def Let_def split: prod.splits)
qed

lemma simple_executor: "agent_executor (snd (MySimpleAPISearch_run env t q s)) = agent_executor s"
  by (simp add: MySimpleAPISearch_run_def Let_def split: prod.splits sum.splits)

lemma tool_run_executor: "agent_executor (snd (tool_run env t q s)) = agent_executor s"
  by (cases t) (simp_all add: bing_executor Tool_executor api_executor simple_executor)

text \<open>
  Claim C7. Each of the three cells that build an agent executor hands it a registry
  whose tool names are pairwise distinct, and no run of a tool changes the executor:
  the names and descriptions of its tools stay as registered.
\<close>

theorem registry_names_unique_and_fixed:
  "(\<exists>ex. agent_executor (bing_agent_cell s) = Some ex
         \<and> map tool_name (tools ex) = [''Searcher'', ''WebFetcher'']
         \<and> distinct (map tool_name (tools ex)))
   \<and> (\<exists>ex. agent_executor (apisearch_agent_cell the_llm spec s) = Some ex
         \<and> map tool_name (tools ex) = [''apisearch'']
         \<and> distinct (map tool_name (tools ex)))
   \<and> (\<exists>ex. agent_executor (simple_apisearch_agent_cell s) = Some ex
         \<and> map tool_name (tools ex) = [''apisearch'']
         \<and> distinct (map tool_name (tools ex)))
   \<and> agent_executor (snd (tool_run env t q s)) = agent_executor s"
  by (simp add: bing_agent_cell_def bing_tools_def new_MyBingSearch_def web_fetch_tool_def
      apisearch_agent_cell_def apisearch_tools_def new_MyAPISearch_def
      simple_apisearch_agent_cell_def simple_apisearch_tools_def new_MySimpleAPISearch_def
      tool_run_executor)


lemma growing_page_not_static:
  "fst (fetch_web_page growing_page url
          (snd (fetch_web_page growing_page url \<lparr>backend = 0, trace = [], agent_executor = None\<rparr>)))
     \<noteq> fst (fetch_web_page growing_page url \<lparr>backend = 0, trace = [], agent_executor = None\<rparr>)"
  by (simp add: fetch_web_page_def growing_page_def parse_html_def)


section \<open>The pipeline of the API chain tool\<close>

lemma chain_trace:
  "\<exists>evs api_url body.
      trace (snd (APIChain_invoke env c q s)) = trace s @ evs
    \<and> evs \<noteq> []
    \<and> prefix evs [LlmCall (chain_llm c) (api_url_prompt (api_docs c) q),
                  HttpGet api_url [] (chain_headers c),
                  LlmCall (chain_llm c) (api_response_prompt (api_docs c) q api_url body)]
    \<and> (\<forall>v. fst (APIChain_invoke env c q s) = Inr v \<longrightarrow> length evs = 3 \<and> is_str v)"
  by (auto simp: APIChain_invoke_def Let_def split: prod.splits sum.splits)

lemma prefix_same_length: "prefix xs ys \<Longrightarrow> length xs = length ys \<Longrightarrow> xs = ys"
  by (auto simp: prefix_def)

lemma prefix_of_pipeline_one_get:
  "prefix evs [LlmCall l p1, HttpGet u ps hs, LlmCall l' p2] \<Longrightarrow>
     length (filter is_http evs) \<le> 1 \<and> length (filter is_llm evs) \<le> 2"
  by (auto simp: prefix_Cons split: list.splits)

lemma api_search_effects_bounded:
  "\<exists>evs api_url body.
      trace (snd (MyAPISearch_run env self q s)) = trace s @ Sleep 2 # evs
    \<and> evs \<noteq> []
    \<and> prefix evs [LlmCall (llm self) (api_url_prompt (api_spec self) q),
                  HttpGet api_url [] (headers self),
                  LlmCall (llm self) (api_response_prompt (api_spec self) q api_url body)]
    \<and> length (filter is_http evs) \<le> 1
    \<and> length (filter is_llm evs) \<le> 2
    \<and> ((\<exists>answer. fst (MyAPISearch_run env self q s) = Inr (PyStr answer)) \<longrightarrow> length evs = 3)"
proof -
  let ?c = "from_llm_and_api_docs (llm self) (api_spec self) (headers self) (verbose self)
              (limit_to_domains self)"
  let ?s1 = "emit (Sleep 2) s"
  obtain evs api_url body where
    tr: "trace (snd (APIChain_invoke env ?c q ?s1)) = trace ?s1 @ evs" and
    ne: "evs \<noteq> []" and
    pre: "prefix evs [LlmCall (chain_llm ?c) (api_url_prompt (api_docs ?c) q),
                  HttpGet api_url [] (chain_headers ?c),
                  LlmCall (chain_llm ?c) (api_response_prompt (api_docs ?c) q api_url body)]" and
    ok: "\<forall>v. fst (APIChain_invoke env ?c q ?s1) = Inr v \<longrightarrow> length evs = 3 \<and> is_str v"
    using chain_trace [of env ?c q ?s1] by blast
  have fields: "chain_llm ?c = llm self" "api_docs ?c = api_spec self"
      "chain_headers ?c = headers self"
    by (simp_all add: from_llm_and_api_docs_def)
  have run: "MyAPISearch_run env self q s =
      (Inr (case fst (APIChain_invoke env ?c q ?s1) of Inl e \<Rightarrow> PyExc e | Inr v \<Rightarrow> v),
       snd (APIChain_invoke env ?c q ?s1))"
    by (simp add: MyAPISearch_run_def Let_def split: prod.splits)
  have t1: "trace (snd (MyAPISearch_run env self q s)) = trace s @ Sleep 2 # evs"
    using tr by (simp add: run)
  have t5: "(\<exists>answer. fst (MyAPISearch_run env self q s) = Inr (PyStr answer)) \<longrightarrow> length evs = 3"
    using ok by (auto simp: run split: sum.splits)
  from pre have pre': "prefix evs [LlmCall (llm self) (api_url_prompt (api_spec self) q),
                  HttpGet api_url [] (headers self),
                  LlmCall (llm self) (api_response_prompt (api_spec self) q api_url body)]"
    by (simp only: fields)
  from prefix_of_pipeline_one_get [OF pre'] t1 ne pre' t5
  show ?thesis by blast
qed

lemma chain_success:
  assumes "llm_predict env (chain_llm c) (api_url_prompt (api_docs c) q) (backend s) = (Inr api_url, w1)"
    and "requests_get env api_url [] (chain_headers c) w1 = (Inr resp, w2)"
    and "llm_predict env (chain_llm c) (api_response_prompt (api_docs c) q api_url (content resp)) w2
           = (Inr answer, w3)"
  shows "APIChain_invoke env c q s =
    (Inr (PyStr answer),
     s\<lparr>backend := w3,
       trace := trace s @
         [LlmCall (chain_llm c) (api_url_prompt (api_docs c) q),
          HttpGet api_url [] (chain_headers c),
          LlmCall (chain_llm c) (api_response_prompt (api_docs c) q api_url (content resp))]\<rparr>)"
  using assms by (simp add: APIChain_invoke_def Let_def emit_def)

lemma chain_fails_at_synthesis:
  assumes "llm_predict env (chain_llm c) (api_url_prompt (api_docs c) q) (backend s) = (Inl e, w1)"
  shows "APIChain_invoke env c q s =
    (Inl e, s\<lparr>backend := w1,
              trace := trace s @ [LlmCall (chain_llm c) (api_url_prompt (api_docs c) q)]\<rparr>)"
  using assms by (simp add: APIChain_invoke_def Let_def emit_def)

lemma chain_fails_at_request:
  assumes "llm_predict env (chain_llm c) (api_url_prompt (api_docs c) q) (backend s) = (Inr api_url, w1)"
    and "requests_get env api_url [] (chain_headers c) w1 = (Inl e, w2)"
  shows "APIChain_invoke env c q s =
    (Inl e, s\<lparr>backend := w2,
              trace := trace s @ [LlmCall (chain_llm c) (api_url_prompt (api_docs c) q),
                                  HttpGet api_url [] (chain_headers c)]\<rparr>)"
  using assms by (simp add: APIChain_invoke_def Let_def emit_def)

lemma chain_fails_at_summary:
  assumes "llm_predict env (chain_llm c) (api_url_prompt (api_docs c) q) (backend s) = (Inr api_url, w1)"
    and "requests_get env api_url [] (chain_headers c) w1 = (Inr resp, w2)"
    and "llm_predict env (chain_llm c) (api_response_prompt (api_docs c) q api_url (content resp)) w2
           = (Inl e, w3)"
  shows "APIChain_invoke env c q s =
    (Inl e,
     s\<lparr>backend := w3,
       trace := trace s @
         [LlmCall (chain_llm c) (api_url_prompt (api_docs c) q),
          HttpGet api_url [] (chain_headers c),
          LlmCall (chain_llm c) (api_response_prompt (api_docs c) q api_url (content resp))]\<rparr>)"
  using assms by (simp add: APIChain_invoke_def Let_def emit_def)

lemma api_run_unfold:
  "MyAPISearch_run env self q s =
     (Inr (case fst (APIChain_invoke env
                  (from_llm_and_api_docs (llm self) (api_spec self) (headers self) (verbose self)
                     (limit_to_domains self)) q (emit (Sleep 2) s)) of
             Inl e \<Rightarrow> PyExc e | Inr v \<Rightarrow> v),
      snd (APIChain_invoke env
             (from_llm_and_api_docs (llm self) (api_spec self) (headers self) (verbose self)
                (limit_to_domains self)) q (emit (Sleep 2) s)))"
  by (simp add: MyAPISearch_run_def Let_def split: prod.splits)

lemma chain_fields [simp]:
  "chain_llm (from_llm_and_api_docs l d h v doms) = l"
  "api_docs (from_llm_and_api_docs l d h v doms) = d"
  "chain_headers (from_llm_and_api_docs l d h v doms) = h"
  by (simp_all add: from_llm_and_api_docs_def)

text \<open>
  Claim C4. For every query, one run of \<open>MyAPISearch\<close> performs the pipeline once,
  after the pause: it asks the language model to synthesize the URL from the API
  documentation and the query, sends one HTTP request to exactly the URL the model
  gave, asks the model to summarize exactly the body of the response to that request,
  and returns the model's summary. When a step fails the run stops there: the later
  steps are not performed and no step is repeated. In every case the run issues at most
  one HTTP request and at most two requests to the model.
\<close>

theorem api_search_two_stage:
  "(llm_predict env (llm self) (api_url_prompt (api_spec self) q) (backend s) = (Inr api_url, w1)
      \<and> requests_get env api_url [] (headers self) w1 = (Inr resp, w2)
      \<and> llm_predict env (llm self)
            (api_response_prompt (api_spec self) q api_url (content resp)) w2 = (Inr answer, w3)
     \<longrightarrow> MyAPISearch_run env self q s =
           (Inr (PyStr answer),
            s\<lparr>backend := w3,
              trace := trace s @
                [Sleep 2,
                 LlmCall (llm self) (api_url_prompt (api_spec self) q),
                 HttpGet api_url [] (headers self),
                 LlmCall (llm self) (api_response_prompt (api_spec self) q api_url (content resp))]\<rparr>))
   \<and> (llm_predict env (llm self) (api_url_prompt (api_spec self) q) (backend s) = (Inl e1, w1)
     \<longrightarrow> snd (MyAPISearch_run env self q s) =
           s\<lparr>backend := w1,
             trace := trace s @
               [Sleep 2, LlmCall (llm self) (api_url_prompt (api_spec self) q)]\<rparr>)
   \<and> (llm_predict env (llm self) (api_url_prompt (api_spec self) q) (backend s) = (Inr api_url, w1)
      \<and> requests_get env api_url [] (headers self) w1 = (Inl e2, w2)
     \<longrightarrow> snd (MyAPISearch_run env self q s) =
           s\<lparr>backend := w2,
             trace := trace s @
               [Sleep 2, LlmCall (llm self) (api_url_prompt (api_spec self) q),
                HttpGet api_url [] (headers self)]\<rparr>)
   \<and> (llm_predict env (llm self) (api_url_prompt (api_spec self) q) (backend s) = (Inr api_url, w1)
      \<and> requests_get env api_url [] (headers self) w1 = (Inr resp, w2)
      \<and> llm_predict env (llm self)
            (api_response_prompt (api_spec self) q api_url (content resp)) w2 = (Inl e3, w3)
     \<longrightarrow> snd (MyAPISearch_run env self q s) =
           s\<lparr>backend := w3,
             trace := trace s @
               [Sleep 2,
                LlmCall (llm self) (api_url_prompt (api_spec self) q),
                HttpGet api_url [] (headers self),
                LlmCall (llm self) (api_response_prompt (api_spec self) q api_url (content resp))]\<rparr>)
   \<and> (\<exists>evs api_url body.
      trace (snd (MyAPISearch_run env self q s)) = trace s @ Sleep 2 # evs
    \<and> evs \<noteq> []
    \<and> prefix evs [LlmCall (llm self) (api_url_prompt (api_spec self) q),
                  HttpGet api_url [] (headers self),
                  LlmCall (llm self) (api_response_prompt (api_spec self) q api_url body)]
    \<and> length (filter is_http evs) \<le> 1
    \<and> length (filter is_llm evs) \<le> 2
    \<and> ((\<exists>answer. fst (MyAPISearch_run env self q s) = Inr (PyStr answer)) \<longrightarrow> length evs = 3))"
proof -
  let ?c = "from_llm_and_api_docs (llm self) (api_spec self) (headers self) (verbose self)
              (limit_to_domains self)"
  let ?s1 = "emit (Sleep 2) s"
  show ?thesis
    using chain_success [of env ?c q ?s1 api_url w1 resp w2 answer w3]
      chain_fails_at_synthesis [of env ?c q ?s1 e1 w1]
      chain_fails_at_request [of env ?c q ?s1 api_url w1 e2 w2]
      chain_fails_at_summary [of env ?c q ?s1 api_url w1 resp w2 e3 w3]
      api_search_effects_bounded [of env self q s]
    by (simp add: api_run_unfold emit_def)
qed

theorem api_search_two_stage_witness:
  "MyAPISearch_run ticker_world (new_MyAPISearch ''gpt-4'' ''docs'' None) ''price of bitcoin''
      \<lparr>backend = 0, trace = [], agent_executor = None\<rparr>
   = (Inr (PyStr ''Bitcoin costs 10 USD''),
      \<lparr>backend = 3,
       trace = [Sleep 2,
                LlmCall ''gpt-4'' (api_url_prompt ''docs'' ''price of bitcoin''),
                HttpGet ''https://api.kraken.com/0/public/Ticker?pair=XBTUSD'' [] [],
                LlmCall ''gpt-4''
                  (api_response_prompt ''docs'' ''price of bitcoin''
                     ''https://api.kraken.com/0/public/Ticker?pair=XBTUSD'' ''XBTUSD 10'')],
       agent_executor = None\<rparr>)"
proof -
  let ?t = "new_MyAPISearch ''gpt-4'' ''docs'' None"
  let ?s0 = "\<lparr>backend = 0::nat, trace = [], agent_executor = None\<rparr>"
  let ?url = "''https://api.kraken.com/0/public/Ticker?pair=XBTUSD''"
  let ?resp = "\<lparr>status_code = 200, content = ''XBTUSD 10''\<rparr>"
  have a: "llm_predict ticker_world (llm ?t) (api_url_prompt (api_spec ?t) ''price of bitcoin'')
             (backend ?s0) = (Inr ?url, Suc 0)"
    by (simp add: ticker_world_def)
  have b: "requests_get ticker_world ?url [] (headers ?t) (Suc 0) = (Inr ?resp, Suc (Suc 0))"
    by (simp add: ticker_world_def)
  have c: "llm_predict ticker_world (llm ?t)
             (api_response_prompt (api_spec ?t) ''price of bitcoin'' ?url (content ?resp))
             (Suc (Suc 0)) = (Inr ''Bitcoin costs 10 USD'', Suc (Suc (Suc 0)))"
    by (simp add: ticker_world_def)
  from api_search_two_stage [where env = ticker_world and self = ?t
      and q = "''price of bitcoin''" and s = ?s0 and api_url = ?url and ?w1.0 = "Suc 0"
      and resp = ?resp and ?w2.0 = "Suc (Suc 0)" and answer = "''Bitcoin costs 10 USD''"
      and ?w3.0 = "Suc (Suc (Suc 0))"] a b c
  show ?thesis
    by (simp add: new_MyAPISearch_def numeral_3_eq_3)
qed

section \<open>The iteration bound of the reasoning loop\<close>







text \<open>
  The bound counts turns. A turn in which the oracle asks for several tools records
  several (invocation, observation) pairs, so the flat sequence of pairs can be longer
  than \<open>max_iterations\<close>.
\<close>

lemma pairs_can_exceed_max_iterations:
  "length (concat (turns (transcript (fst (run_loop 1
      (fixed_services (Inr page_response) (Inr [hit_A]) (Inr []))
      search_twice bing_tools ''prices'' fresh_session))))) = 2"
  by (simp add: run_loop_def search_twice_def invoke_def Let_def split: prod.splits)

end
